theory Spec2Isabelle
  imports Main "HOL-Library.Word"
begin

section \<open>The host objects used by \<open>src/utils/icoUtils.ts\<close>\<close>

text \<open>
  \<open>createIcoFromPng\<close> works on JavaScript objects that live on a shared heap: it is
  handed a reference to an \<open>ArrayBuffer\<close>, allocates a second one, writes into the new one
  through a \<open>DataView\<close> and a \<open>Uint8Array\<close>, and wraps the result in a \<open>Blob\<close>. The heap is
  modelled as the list of the byte contents of all array buffers allocated so far; a
  reference is an index into that list, and allocation appends. Numbers are modelled as
  mathematical integers (the callers pass integers), allocation always succeeds (memory
  is unbounded), and every buffer of the heap is live: detached buffers are not modelled.
\<close>

type_synonym byte = "8 word"
type_synonym ArrayBuffer = nat
type_synonym heap = "byte list list"

datatype error = RangeError | TypeError

text \<open>A \<open>DataView\<close> or a \<open>Uint8Array\<close>: a window onto an array buffer.\<close>

record View =
  buffer :: ArrayBuffer
  byteOffset :: nat
  byteLength :: nat

record Blob =
  blob_bytes :: "byte list"
  blob_type :: string

text \<open>Sequencing of steps that may throw: the first exception ends the call.\<close>

fun and_then :: "error + 'a \<Rightarrow> ('a \<Rightarrow> error + 'b) \<Rightarrow> error + 'b" where
  "and_then (Inl e) f = Inl e"
| "and_then (Inr x) f = f x"

text \<open>\<open>buf.byteLength\<close>. A reference that names no buffer of the heap is not an
  \<open>ArrayBuffer\<close>; using it is a \<open>TypeError\<close>.\<close>

definition ArrayBuffer_byteLength :: "heap \<Rightarrow> ArrayBuffer \<Rightarrow> error + nat" where
  "ArrayBuffer_byteLength s b =
     (if b < length s then Inr (length (s ! b)) else Inl TypeError)"

text \<open>\<open>new ArrayBuffer(n)\<close>: a fresh buffer of \<open>n\<close> zero bytes.\<close>

definition new_ArrayBuffer :: "heap \<Rightarrow> nat \<Rightarrow> ArrayBuffer \<times> heap" where
  "new_ArrayBuffer s n = (length s, s @ [replicate n 0])"

text \<open>\<open>new DataView(b)\<close> and \<open>new Uint8Array(b)\<close>: a view of the whole buffer.\<close>

definition new_View :: "heap \<Rightarrow> ArrayBuffer \<Rightarrow> error + View" where
  "new_View s b =
     (if b < length s
      then Inr \<lparr>buffer = b, byteOffset = 0, byteLength = length (s ! b)\<rparr>
      else Inl TypeError)"

definition new_DataView :: "heap \<Rightarrow> ArrayBuffer \<Rightarrow> error + View" where
  "new_DataView = new_View"

definition new_Uint8Array :: "heap \<Rightarrow> ArrayBuffer \<Rightarrow> error + View" where
  "new_Uint8Array = new_View"

text \<open>The bytes of an unsigned integer field of \<open>elementSize\<close> bytes holding the number \<open>v\<close>:
  \<open>v\<close> is reduced modulo \<open>2 ^ (8 * elementSize)\<close> and laid out low byte first when
  \<open>littleEndian\<close>, high byte first otherwise.\<close>

definition NumericToRawBytes :: "nat \<Rightarrow> int \<Rightarrow> bool \<Rightarrow> byte list" where
  "NumericToRawBytes elementSize v littleEndian =
     (let le = map (\<lambda>i. word_of_int (v div 256 ^ i)) [0..<elementSize]
      in if littleEndian then le else rev le)"

text \<open>Overwriting the bytes of a buffer from position \<open>pos\<close> on.\<close>

definition write_at :: "byte list \<Rightarrow> nat \<Rightarrow> byte list \<Rightarrow> byte list" where
  "write_at buf pos bytes = take pos buf @ bytes @ drop (pos + length bytes) buf"

text \<open>The common part of the \<open>DataView\<close> setters: a write that does not fit in the view
  throws a \<open>RangeError\<close> and writes nothing.\<close>

definition SetViewValue :: "View \<Rightarrow> nat \<Rightarrow> nat \<Rightarrow> int \<Rightarrow> bool \<Rightarrow> heap \<Rightarrow> error + heap" where
  "SetViewValue view requestIndex elementSize v littleEndian s =
     (if byteLength view < requestIndex + elementSize then Inl RangeError
      else Inr (s[buffer view :=
                  write_at (s ! buffer view) (byteOffset view + requestIndex)
                    (NumericToRawBytes elementSize v littleEndian)]))"

definition setUint8 :: "View \<Rightarrow> nat \<Rightarrow> int \<Rightarrow> heap \<Rightarrow> error + heap" where
  "setUint8 view pos v = SetViewValue view pos 1 v True"

definition setUint16 :: "View \<Rightarrow> nat \<Rightarrow> int \<Rightarrow> bool \<Rightarrow> heap \<Rightarrow> error + heap" where
  "setUint16 view pos v littleEndian = SetViewValue view pos 2 v littleEndian"

definition setUint32 :: "View \<Rightarrow> nat \<Rightarrow> int \<Rightarrow> bool \<Rightarrow> heap \<Rightarrow> error + heap" where
  "setUint32 view pos v littleEndian = SetViewValue view pos 4 v littleEndian"

text \<open>\<open>target.set(source, offset)\<close> on typed arrays: the bytes seen through \<open>source\<close> are
  read first and then copied into \<open>target\<close> from \<open>offset\<close> on; a source that does not fit
  throws a \<open>RangeError\<close>.\<close>

definition Uint8Array_set :: "View \<Rightarrow> View \<Rightarrow> nat \<Rightarrow> heap \<Rightarrow> error + heap" where
  "Uint8Array_set target source pos s =
     (if byteLength target < byteLength source + pos then Inl RangeError
      else
        let src = take (byteLength source) (drop (byteOffset source) (s ! buffer source))
        in Inr (s[buffer target :=
                  write_at (s ! buffer target) (byteOffset target + pos) src]))"

text \<open>\<open>new Blob(parts, {type: t})\<close>: the blob holds a copy of the bytes of the parts.\<close>

definition new_Blob :: "heap \<Rightarrow> ArrayBuffer list \<Rightarrow> string \<Rightarrow> error + Blob" where
  "new_Blob s parts t =
     (if list_all (\<lambda>b. b < length s) parts
      then Inr \<lparr>blob_bytes = concat (map (\<lambda>b. s ! b) parts), blob_type = t\<rparr>
      else Inl TypeError)"

section \<open>The encoder\<close>

text \<open>\<open>createIcoFromPng\<close>, statement by statement. It takes the heap and returns, unless
  a step throws, the blob together with the heap it leaves behind.\<close>

definition createIcoFromPng ::
  "heap \<Rightarrow> ArrayBuffer \<Rightarrow> int \<Rightarrow> int \<Rightarrow> error + (Blob \<times> heap)" where
  "createIcoFromPng s0 pngBuffer width height =
     and_then (ArrayBuffer_byteLength s0 pngBuffer) (\<lambda>n.
     let icoBufferSize = 22 + n;
         (buffer, s1) = new_ArrayBuffer s0 icoBufferSize
     in
     and_then (new_DataView s1 buffer) (\<lambda>view.
     and_then (setUint16 view 0 0 True s1) (\<lambda>s2.
     and_then (setUint16 view 2 1 True s2) (\<lambda>s3.
     and_then (setUint16 view 4 1 True s3) (\<lambda>s4.
     and_then (setUint8 view 6 (if width \<ge> 256 then 0 else width) s4) (\<lambda>s5.
     and_then (setUint8 view 7 (if height \<ge> 256 then 0 else height) s5) (\<lambda>s6.
     and_then (setUint8 view 8 0 s6) (\<lambda>s7.
     and_then (setUint8 view 9 0 s7) (\<lambda>s8.
     and_then (setUint16 view 10 1 True s8) (\<lambda>s9.
     and_then (setUint16 view 12 32 True s9) (\<lambda>s10.
     and_then (ArrayBuffer_byteLength s10 pngBuffer) (\<lambda>m.
     and_then (setUint32 view 14 (int m) True s10) (\<lambda>s11.
     and_then (setUint32 view 18 22 True s11) (\<lambda>s12.
     and_then (new_Uint8Array s12 pngBuffer) (\<lambda>pngBytes.
     and_then (new_Uint8Array s12 buffer) (\<lambda>icoBytes.
     and_then (Uint8Array_set icoBytes pngBytes 22 s12) (\<lambda>s13.
     and_then (new_Blob s13 [buffer] ''image/x-icon'') (\<lambda>blob.
     Inr (blob, s13)))))))))))))))))))"

text \<open>The bytes of the returned blob, \<open>None\<close> when the call throws.\<close>

definition ico_bytes :: "heap \<Rightarrow> ArrayBuffer \<Rightarrow> int \<Rightarrow> int \<Rightarrow> byte list option" where
  "ico_bytes s pngBuffer width height =
     (case createIcoFromPng s pngBuffer width height of
        Inl e \<Rightarrow> None
      | Inr (blob, s') \<Rightarrow> Some (blob_bytes blob))"

section \<open>Reading the output\<close>

text \<open>The unsigned number held, low byte first, in the \<open>elementSize\<close> bytes from \<open>pos\<close> on.\<close>

definition le_field :: "byte list \<Rightarrow> nat \<Rightarrow> nat \<Rightarrow> nat" where
  "le_field bytes pos elementSize =
     foldr (\<lambda>b acc. unat b + 256 * acc) (take elementSize (drop pos bytes)) 0"

text \<open>The directory byte for a dimension, after the table of the specification:
  the dimension itself below 256, the sentinel 0 from 256 on.\<close>

definition spec_dim_byte :: "int \<Rightarrow> byte" where
  "spec_dim_byte d = (if d < 256 then word_of_int d else 0)"

text \<open>The 22 bytes of file header and directory entry, after the byte layout table of the
  specification, for a payload of \<open>n\<close> bytes.\<close>

definition spec_header :: "nat \<Rightarrow> int \<Rightarrow> int \<Rightarrow> byte list" where
  "spec_header n width height =
     [0, 0, 1, 0, 1, 0,
      spec_dim_byte width, spec_dim_byte height, 0, 0,
      1, 0, 32, 0,
      word_of_nat n, word_of_nat (n div 256), word_of_nat (n div 65536),
      word_of_nat (n div 16777216),
      22, 0, 0, 0]"

section \<open>The steps of the encoder on the fresh buffer\<close>

lemma length_NumericToRawBytes: "length (NumericToRawBytes k v le) = k"
  by (simp add: NumericToRawBytes_def Let_def)

lemma NumericToRawBytes_1: "NumericToRawBytes (Suc 0) v True = [word_of_int v]"
  by (simp add: NumericToRawBytes_def)

lemma NumericToRawBytes_2:
  "NumericToRawBytes 2 v True = [word_of_int v, word_of_int (v div 256)]"
  by (simp add: NumericToRawBytes_def upt_rec)

lemma NumericToRawBytes_4:
  "NumericToRawBytes 4 v True =
     [word_of_int v, word_of_int (v div 256), word_of_int (v div 65536),
      word_of_int (v div 16777216)]"
  by (simp add: NumericToRawBytes_def upt_rec)

lemma length_write_at:
  "pos + length bs \<le> length buf \<Longrightarrow> length (write_at buf pos bs) = length buf"
  by (simp add: write_at_def)

text \<open>A write that stays inside the first part of a buffer leaves the rest alone.\<close>

lemma write_at_append:
  "pos + length bs \<le> length hdr \<Longrightarrow> write_at (hdr @ t) pos bs = write_at hdr pos bs @ t"
  by (simp add: write_at_def)

lemma write_at_payload:
  "length hdr = 22 \<Longrightarrow> length bs = length t \<Longrightarrow> write_at (hdr @ t) 22 bs = hdr @ bs"
  by (simp add: write_at_def)

text \<open>The setters on a view of the buffer allocated last.\<close>

lemma SetViewValue_fresh:
  "pos + k \<le> L \<Longrightarrow>
   SetViewValue \<lparr>buffer = length s, byteOffset = 0, byteLength = L\<rparr> pos k v le (s @ [buf]) =
     Inr (s @ [write_at buf pos (NumericToRawBytes k v le)])"
  by (simp add: SetViewValue_def)

lemma Uint8Array_set_fresh:
  "a < length s \<Longrightarrow> length (s ! a) + pos \<le> L \<Longrightarrow>
   Uint8Array_set \<lparr>buffer = length s, byteOffset = 0, byteLength = L\<rparr>
       \<lparr>buffer = a, byteOffset = 0, byteLength = length (s ! a)\<rparr> pos (s @ [buf]) =
     Inr (s @ [write_at buf pos (s ! a)])"
  by (simp add: Uint8Array_set_def nth_append)

lemma dim_byte: "word_of_int (if 256 \<le> d then 0 else d) = spec_dim_byte d"
  by (simp add: spec_dim_byte_def)

lemma word_of_int_div:
  "(word_of_int (int n div numeral k) :: byte) = word_of_nat (n div numeral k)"
proof -
  have "int n div numeral k = int (n div numeral k)"
    by (simp add: zdiv_int)
  then show ?thesis
    by simp
qed

text \<open>The eleven header writes, on the 22 zero bytes they land in.\<close>

lemma header_bytes:
  "write_at (write_at (write_at (write_at (write_at (write_at (write_at (write_at
     (write_at (write_at (write_at (replicate 22 0)
       0 [0, 0]) 2 [1, 0]) 4 [1, 0]) 6 [dw]) 7 [dh]) 8 [0]) 9 [0]) 10 [1, 0]) 12 [32, 0])
       14 [l0, l1, l2, l3]) 18 [22, 0, 0, 0]
   = [0, 0, 1, 0, 1, 0, dw, dh, 0, 0, 1, 0, 32, 0, l0, l1, l2, l3, 22, 0, 0, 0]"
  by (simp add: write_at_def eval_nat_numeral)

section \<open>The code produces the layout of the specification\<close>

text \<open>Called on a live buffer, \<open>createIcoFromPng\<close> returns: no step throws. The blob
  holds the header of the layout table followed by the payload, and the heap has grown by
  exactly the buffer the blob was made from.\<close>

lemma createIcoFromPng_eq:
  assumes "a < length s"
  shows "createIcoFromPng s a w h =
    Inr (\<lparr>blob_bytes = spec_header (length (s ! a)) w h @ s ! a,
           blob_type = ''image/x-icon''\<rparr>,
         s @ [spec_header (length (s ! a)) w h @ s ! a])"
  using assms
  apply (simp add: createIcoFromPng_def ArrayBuffer_byteLength_def new_ArrayBuffer_def
      new_DataView_def new_Uint8Array_def new_View_def setUint8_def setUint16_def setUint32_def
      SetViewValue_fresh nth_append Let_def length_write_at length_NumericToRawBytes
      Uint8Array_set_fresh new_Blob_def split del: if_split)
  apply (simp add: replicate_add write_at_append length_write_at length_NumericToRawBytes
      NumericToRawBytes_1 NumericToRawBytes_2 NumericToRawBytes_4 dim_byte
      split del: if_split)
  apply (simp only: header_bytes)
  apply (subst write_at_payload)
    apply simp
   apply simp
  apply (simp add: spec_header_def word_of_int_div)
  done

lemma ico_bytes_eq:
  "a < length s \<Longrightarrow> ico_bytes s a w h = Some (spec_header (length (s ! a)) w h @ s ! a)"
  by (simp add: ico_bytes_def createIcoFromPng_eq)

lemma length_spec_header: "length (spec_header n w h) = 22"
  by (simp add: spec_header_def)

text \<open>A reference that names no buffer of the heap stops the call at its first line.\<close>

lemma createIcoFromPng_dangling:
  "\<not> a < length s \<Longrightarrow> createIcoFromPng s a w h = Inl TypeError"
  by (simp add: createIcoFromPng_def ArrayBuffer_byteLength_def)

section \<open>Reading fields of the layout\<close>

lemma le32_digits:
  "(n::nat) mod 256 + 256 * (n div 256 mod 256 + 256 * (n div 65536 mod 256
     + 256 * (n div 16777216 mod 256))) = n mod 4294967296"
proof -
  have a: "n mod 4294967296 = n mod 256 + 256 * (n div 256 mod 16777216)"
    using mod_mult2_eq [of n 256 16777216] by simp
  have b: "n div 256 mod 16777216 = n div 256 mod 256 + 256 * (n div 65536 mod 65536)"
    using mod_mult2_eq [of "n div 256" 256 65536] by (simp add: div_mult2_eq [symmetric])
  have c: "n div 65536 mod 65536 = n div 65536 mod 256 + 256 * (n div 16777216 mod 256)"
    using mod_mult2_eq [of "n div 65536" 256 256] by (simp add: div_mult2_eq [symmetric])
  show ?thesis
    by (simp only: a b c)
qed

lemma size_field: "le_field (spec_header n w h @ p) 14 4 = n mod 4294967296"
  by (simp add: le_field_def spec_header_def unat_of_nat flip: le32_digits)

lemma offset_field: "le_field (spec_header n w h @ p) 18 4 = 22"
  by (simp add: le_field_def spec_header_def)

lemma planes_field: "le_field (spec_header n w h @ p) 10 2 = 1"
  by (simp add: le_field_def spec_header_def)

lemma bpp_field: "le_field (spec_header n w h @ p) 12 2 = 32"
  by (simp add: le_field_def spec_header_def)

lemma take_6_layout: "take 6 (spec_header n w h @ p) = [0, 0, 1, 0, 1, 0]"
  by (simp add: spec_header_def)

lemma nth_6_layout: "(spec_header n w h @ p) ! 6 = spec_dim_byte w"
  by (simp add: spec_header_def)

lemma nth_7_layout: "(spec_header n w h @ p) ! 7 = spec_dim_byte h"
  by (simp add: spec_header_def)

lemma nth_8_layout: "(spec_header n w h @ p) ! 8 = 0"
  by (simp add: spec_header_def)

lemma nth_9_layout: "(spec_header n w h @ p) ! 9 = 0"
  by (simp add: spec_header_def)

lemma uint_dim_byte_below: "d < 256 \<Longrightarrow> uint (spec_dim_byte d) = d mod 256"
  by (simp add: spec_dim_byte_def uint_word_of_int take_bit_eq_mod)

lemma dim_byte_sentinel: "256 \<le> d \<Longrightarrow> spec_dim_byte d = 0"
  by (simp add: spec_dim_byte_def)

section \<open>The claims\<close>

text \<open>
  C1 (size invariant). For every byte buffer \<open>p\<close>, the empty one included, and all
  integers \<open>w\<close> and \<open>h\<close>, the call returns and its output has exactly
  \<open>22 + len(p)\<close> bytes. Here \<open>p\<close> is the content \<open>s ! a\<close> of the buffer that the
  reference \<open>a\<close> names in the heap \<open>s\<close>.
\<close>

theorem size_invariant:
  assumes live: "a < length s"
  shows "\<exists>out. ico_bytes s a w h = Some out \<and> length out = 22 + length (s ! a)"
proof -
  let ?out = "spec_header (length (s ! a)) w h @ s ! a"
  have "ico_bytes s a w h = Some ?out"
    using live by (rule ico_bytes_eq)
  moreover have "length ?out = 22 + length (s ! a)"
    by (simp add: length_spec_header)
  ultimately show ?thesis
    by blast
qed

theorem size_invariant_witness:
  "(0::nat) < length [[137, 80, 78, 71, 0, 0, 0, 0, 0, 0 :: byte]]
   \<and> map_option length (ico_bytes [[137, 80, 78, 71, 0, 0, 0, 0, 0, 0]] 0 32 32) = Some 32
   \<and> map_option length (ico_bytes [[]] 0 (-5) 300) = Some 22"
  using size_invariant [where a = 0 and s = "[[137, 80, 78, 71, 0, 0, 0, 0, 0, 0]]"
      and w = 32 and h = 32]
    size_invariant [where a = 0 and s = "[[]]" and w = "-5" and h = 300]
  by auto

text \<open>
  C2 (header invariant). Whatever the inputs, the first six bytes of the output are
  \<open>0, 0, 1, 0, 1, 0\<close>: reserved 0, image type 1 and image count 1, each a
  little-endian 16-bit field.
\<close>

theorem header_invariant:
  "a < length s \<Longrightarrow>
   \<exists>out. ico_bytes s a w h = Some out \<and> take 6 out = [0, 0, 1, 0, 1, 0]
     \<and> le_field out 0 2 = 0 \<and> le_field out 2 2 = 1 \<and> le_field out 4 2 = 1"
  by (simp add: ico_bytes_eq take_6_layout) (simp add: le_field_def spec_header_def)

theorem header_invariant_witness:
  "(1::nat) < length [[], [9, 9, 9 :: byte]]
   \<and> map_option (take 6) (ico_bytes [[], [9, 9, 9]] 1 48 (-1)) = Some [0, 0, 1, 0, 1, 0]"
  using header_invariant [where a = 1 and s = "[[], [9, 9, 9]]" and w = 48 and h = "-1"]
  by auto

text \<open>
  C3 (payload placement). The bytes of the output from offset 22 up to the end, that is
  offsets \<open>22 .. 22 + len(p) - 1\<close>, are \<open>p\<close> verbatim, for every \<open>p\<close> including the
  empty buffer.
\<close>

theorem payload_placement:
  assumes live: "a < length s"
  shows "\<exists>out. ico_bytes s a w h = Some out \<and> length out = 22 + length (s ! a)
     \<and> drop 22 out = s ! a \<and> take (length (s ! a)) (drop 22 out) = s ! a"
proof -
  let ?hdr = "spec_header (length (s ! a)) w h"
  have out: "ico_bytes s a w h = Some (?hdr @ s ! a)"
    using live by (rule ico_bytes_eq)
  have hdr: "length ?hdr = 22"
    by (rule length_spec_header)
  then have "drop 22 (?hdr @ s ! a) = s ! a"
    by simp
  with out hdr show ?thesis
    by simp
qed

theorem payload_placement_witness:
  "(0::nat) < length [[137, 80, 78, 71 :: byte]]
   \<and> map_option (drop 22) (ico_bytes [[137, 80, 78, 71]] 0 16 16) = Some [137, 80, 78, 71]
   \<and> map_option (drop 22) (ico_bytes [[]] 0 16 16) = Some []"
  using payload_placement [where a = 0 and s = "[[137, 80, 78, 71]]" and w = 16 and h = 16]
    payload_placement [where a = 0 and s = "[[]]" and w = 16 and h = 16]
  by auto

text \<open>
  C4 (size and offset fields), as the claim states it: the 4-byte little-endian field at
  offset 14 equals \<open>len(p)\<close> for every input. A four-byte field holds \<open>len(p)\<close>
  only modulo \<open>2 ^ 32\<close>: for a payload of exactly \<open>2 ^ 32\<close> zero bytes
  \<open>setUint32\<close> stores 0.
\<close>

theorem size_field_counterexample:
  "ico_bytes [replicate 4294967296 0] 0 32 32 \<noteq> None
   \<and> le_field (the (ico_bytes [replicate 4294967296 0] 0 32 32)) 14 4 = 0
   \<and> length (replicate 4294967296 (0::byte)) = 4294967296"
  by (simp add: ico_bytes_eq size_field)

text \<open>
  C4, amended. For every input the 4-byte little-endian field at offset 14 equals
  \<open>len(p) mod 2 ^ 32\<close>, hence \<open>len(p)\<close> itself whenever \<open>len(p) < 2 ^ 32\<close>, and the
  4-byte little-endian field at offset 18 equals 22.
\<close>

theorem size_and_offset_fields:
  assumes live: "a < length s"
  shows "\<exists>out. ico_bytes s a w h = Some out
     \<and> le_field out 14 4 = length (s ! a) mod 2 ^ 32
     \<and> (length (s ! a) < 2 ^ 32 \<longrightarrow> le_field out 14 4 = length (s ! a))
     \<and> le_field out 18 4 = 22"
proof -
  let ?out = "spec_header (length (s ! a)) w h @ s ! a"
  have out: "ico_bytes s a w h = Some ?out"
    using live by (rule ico_bytes_eq)
  have size: "le_field ?out 14 4 = length (s ! a) mod 2 ^ 32"
    by (simp add: size_field)
  then have small: "length (s ! a) < 2 ^ 32 \<longrightarrow> le_field ?out 14 4 = length (s ! a)"
    by simp
  have "le_field ?out 18 4 = 22"
    by (rule offset_field)
  with out size small show ?thesis
    by blast
qed

theorem size_and_offset_fields_witness:
  "(0::nat) < length [[137, 80, 78, 71, 0, 0, 0, 0, 0, 0 :: byte]]
   \<and> length ([[137, 80, 78, 71, 0, 0, 0, 0, 0, 0 :: byte]] ! 0) < 2 ^ 32
   \<and> map_option (\<lambda>out. (le_field out 14 4, le_field out 18 4))
        (ico_bytes [[137, 80, 78, 71, 0, 0, 0, 0, 0, 0]] 0 32 32) = Some (10, 22)"
  using size_and_offset_fields [where a = 0 and s = "[[137, 80, 78, 71, 0, 0, 0, 0, 0, 0]]"
      and w = 32 and h = 32]
  by auto

text \<open>
  C5 (sentinel mapping). The width byte at offset 6 is \<open>w\<close> for \<open>1 \<le> w \<le> 255\<close> and
  0 for \<open>w \<ge> 256\<close>; the height byte at offset 7 is \<open>h\<close> for \<open>1 \<le> h \<le> 255\<close> and 0
  for \<open>h \<ge> 256\<close>. The dimensions 256, 255 and 1 give the bytes 0, 255 and 1.
\<close>

theorem sentinel_mapping:
  "a < length s \<Longrightarrow>
   \<exists>out. ico_bytes s a w h = Some out
     \<and> (1 \<le> w \<and> w \<le> 255 \<longrightarrow> uint (out ! 6) = w)
     \<and> (256 \<le> w \<longrightarrow> out ! 6 = 0)
     \<and> (1 \<le> h \<and> h \<le> 255 \<longrightarrow> uint (out ! 7) = h)
     \<and> (256 \<le> h \<longrightarrow> out ! 7 = 0)"
  by (simp add: ico_bytes_eq nth_6_layout nth_7_layout uint_dim_byte_below dim_byte_sentinel)

theorem sentinel_mapping_witness:
  "(0::nat) < length [[137, 80, 78, 71 :: byte]]
   \<and> the (ico_bytes [[137, 80, 78, 71]] 0 256 256) ! 6 = 0
   \<and> the (ico_bytes [[137, 80, 78, 71]] 0 256 256) ! 7 = 0
   \<and> uint (the (ico_bytes [[137, 80, 78, 71]] 0 255 255) ! 6) = 255
   \<and> uint (the (ico_bytes [[137, 80, 78, 71]] 0 255 255) ! 7) = 255
   \<and> uint (the (ico_bytes [[137, 80, 78, 71]] 0 1 1) ! 6) = 1
   \<and> uint (the (ico_bytes [[137, 80, 78, 71]] 0 1 1) ! 7) = 1
   \<and> the (ico_bytes [[137, 80, 78, 71]] 0 1000 257) ! 6 = 0
   \<and> the (ico_bytes [[137, 80, 78, 71]] 0 1000 257) ! 7 = 0"
  using sentinel_mapping [where a = 0 and s = "[[137, 80, 78, 71]]" and w = 256 and h = 256]
    sentinel_mapping [where a = 0 and s = "[[137, 80, 78, 71]]" and w = 255 and h = 255]
    sentinel_mapping [where a = 0 and s = "[[137, 80, 78, 71]]" and w = 1 and h = 1]
    sentinel_mapping [where a = 0 and s = "[[137, 80, 78, 71]]" and w = 1000 and h = 257]
  by auto

text \<open>
  C6 (constant directory fields). Whatever the inputs, the byte at offset 8 (palette
  colour count) is 0, the byte at offset 9 (reserved) is 0, the little-endian 16-bit field
  at offset 10 (colour planes) is 1 and the one at offset 12 (bits per pixel) is 32.
\<close>

theorem directory_constants:
  "a < length s \<Longrightarrow>
   \<exists>out. ico_bytes s a w h = Some out \<and> out ! 8 = 0 \<and> out ! 9 = 0
     \<and> le_field out 10 2 = 1 \<and> le_field out 12 2 = 32"
  by (simp add: ico_bytes_eq nth_8_layout nth_9_layout planes_field bpp_field)

theorem directory_constants_witness:
  "(2::nat) < length [[1 :: byte], [], [255, 254, 253]]
   \<and> the (ico_bytes [[1], [], [255, 254, 253]] 2 64 64) ! 8 = 0
   \<and> the (ico_bytes [[1], [], [255, 254, 253]] 2 64 64) ! 9 = 0
   \<and> le_field (the (ico_bytes [[1], [], [255, 254, 253]] 2 64 64)) 10 2 = 1
   \<and> le_field (the (ico_bytes [[1], [], [255, 254, 253]] 2 64 64)) 12 2 = 32"
  using directory_constants [where a = 2 and s = "[[1], [], [255, 254, 253]]"
      and w = 64 and h = 64]
  by auto

text \<open>
  C7 (totality). For every live input buffer, whatever its content (empty and non-PNG
  content included), and all integers \<open>w\<close> and \<open>h\<close>, no step of the call throws: it
  returns a blob of \<open>22 + len(p)\<close> bytes. The content is never inspected: with any other
  content \<open>q\<close> of the same length in the buffer the call returns as well, with the same
  22 header bytes, followed by \<open>q\<close>.
\<close>

theorem total_on_every_buffer:
  "a < length s \<Longrightarrow>
   \<exists>blob s'. createIcoFromPng s a w h = Inr (blob, s')
     \<and> length (blob_bytes blob) = 22 + length (s ! a)
     \<and> (\<forall>q. length q = length (s ! a) \<longrightarrow>
          (\<exists>blob2 s2. createIcoFromPng (s[a := q]) a w h = Inr (blob2, s2)
             \<and> take 22 (blob_bytes blob2) = take 22 (blob_bytes blob)
             \<and> drop 22 (blob_bytes blob2) = q))"
  by (simp add: createIcoFromPng_eq length_spec_header)

theorem total_on_every_buffer_witness:
  "(0::nat) < length [[1, 2, 3 :: byte]]
   \<and> length [0, 0, 0 :: byte] = length ([[1, 2, 3 :: byte]] ! 0)
   \<and> (\<exists>blob s'. createIcoFromPng [[1, 2, 3]] 0 32 32 = Inr (blob, s')
        \<and> length (blob_bytes blob) = 25
        \<and> (\<exists>blob2 s2. createIcoFromPng [[0, 0, 0]] 0 32 32 = Inr (blob2, s2)
             \<and> take 22 (blob_bytes blob2) = take 22 (blob_bytes blob)
             \<and> drop 22 (blob_bytes blob2) = [0, 0, 0]))"
proof -
  have live: "(0::nat) < length [[1, 2, 3 :: byte]]"
    by simp
  from total_on_every_buffer [OF live, of 32 32]
  obtain blob s' where
    ret: "createIcoFromPng [[1, 2, 3]] 0 32 32 = Inr (blob, s')" and
    len: "length (blob_bytes blob) = 22 + length ([[1, 2, 3 :: byte]] ! 0)" and
    any: "\<forall>q. length q = length ([[1, 2, 3 :: byte]] ! 0) \<longrightarrow>
          (\<exists>blob2 s2. createIcoFromPng ([[1, 2, 3]][0 := q]) 0 32 32 = Inr (blob2, s2)
             \<and> take 22 (blob_bytes blob2) = take 22 (blob_bytes blob)
             \<and> drop 22 (blob_bytes blob2) = q)"
    by blast
  from any [rule_format, of "[0, 0, 0]"]
  have "\<exists>blob2 s2. createIcoFromPng [[0, 0, 0]] 0 32 32 = Inr (blob2, s2)
             \<and> take 22 (blob_bytes blob2) = take 22 (blob_bytes blob)
             \<and> drop 22 (blob_bytes blob2) = [0, 0, 0]"
    by simp
  with ret len show ?thesis
    by simp
qed

text \<open>
  C8 (determinism). Two calls with byte-identical payloads and equal \<open>w\<close> and \<open>h\<close>
  return the same blob, bytes and type, whatever else the two heaps hold and wherever the
  payload lives in them.
\<close>

theorem deterministic:
  "a < length s \<Longrightarrow> b < length t \<Longrightarrow> s ! a = t ! b \<Longrightarrow>
   \<exists>blob s' t'. createIcoFromPng s a w h = Inr (blob, s')
     \<and> createIcoFromPng t b w h = Inr (blob, t')"
  by (simp add: createIcoFromPng_eq)

theorem deterministic_witness:
  "(0::nat) < length [[1, 2, 3 :: byte]] \<and> (1::nat) < length [[9 :: byte], [1, 2, 3]]
   \<and> [[1, 2, 3 :: byte]] ! 0 = [[9], [1, 2, 3]] ! 1
   \<and> map_sum id fst (createIcoFromPng [[1, 2, 3]] 0 16 16)
       = map_sum id fst (createIcoFromPng [[9], [1, 2, 3]] 1 16 16)"
  using deterministic [where a = 0 and s = "[[1, 2, 3]]" and b = 1
      and t = "[[9], [1, 2, 3]]" and w = 16 and h = 16]
  by auto

text \<open>
  C9 (no side effects). After the call the input buffer holds the bytes it held before;
  so does every other buffer that existed before the call. The only change to the heap is
  one freshly allocated buffer, in which the output was assembled.
\<close>

theorem input_buffer_unchanged:
  assumes live: "a < length s"
  shows "\<exists>blob s'. createIcoFromPng s a w h = Inr (blob, s')
     \<and> s' ! a = s ! a \<and> take (length s) s' = s \<and> length s' = Suc (length s)
     \<and> s' ! length s = blob_bytes blob"
proof -
  let ?out = "spec_header (length (s ! a)) w h @ s ! a"
  let ?blob = "\<lparr>blob_bytes = ?out, blob_type = ''image/x-icon''\<rparr>"
  have ret: "createIcoFromPng s a w h = Inr (?blob, s @ [?out])"
    using live by (rule createIcoFromPng_eq)
  have "(s @ [?out]) ! a = s ! a"
    using live by (simp add: nth_append)
  moreover have "take (length s) (s @ [?out]) = s" and "length (s @ [?out]) = Suc (length s)"
    by simp_all
  moreover have "(s @ [?out]) ! length s = blob_bytes ?blob"
    by simp
  ultimately show ?thesis
    using ret by blast
qed

theorem input_buffer_unchanged_witness:
  "(1::nat) < length [[7 :: byte], [1, 2, 3]]
   \<and> snd (projr (createIcoFromPng [[7], [1, 2, 3]] 1 16 16)) ! 1 = [1, 2, 3]
   \<and> take 2 (snd (projr (createIcoFromPng [[7], [1, 2, 3]] 1 16 16))) = [[7], [1, 2, 3]]"
  using input_buffer_unchanged [where a = 1 and s = "[[7], [1, 2, 3]]" and w = 16 and h = 16]
  by (auto simp add: numeral_2_eq_2)

text \<open>
  C10 (low dimensions wrap). For every integer \<open>w < 256\<close>, zero and the negative ones
  included, the width byte at offset 6 is \<open>w mod 256\<close>; for every integer \<open>h < 256\<close> the
  height byte at offset 7 is \<open>h mod 256\<close>. Nothing is rejected.
\<close>

theorem low_dimensions_wrap:
  "a < length s \<Longrightarrow>
   \<exists>out. ico_bytes s a w h = Some out
     \<and> (w < 256 \<longrightarrow> uint (out ! 6) = w mod 256)
     \<and> (h < 256 \<longrightarrow> uint (out ! 7) = h mod 256)"
  by (simp add: ico_bytes_eq nth_6_layout nth_7_layout uint_dim_byte_below)

theorem low_dimensions_wrap_witness:
  "(0::nat) < length [[137, 80 :: byte]] \<and> (-1::int) < 256 \<and> (0::int) < 256
   \<and> uint (the (ico_bytes [[137, 80]] 0 (-1) 0) ! 6) = 255
   \<and> uint (the (ico_bytes [[137, 80]] 0 (-1) 0) ! 7) = 0
   \<and> uint (the (ico_bytes [[137, 80]] 0 (-300) 200) ! 6) = 212
   \<and> uint (the (ico_bytes [[137, 80]] 0 (-300) 200) ! 7) = 200"
  using low_dimensions_wrap [where a = 0 and s = "[[137, 80]]" and w = "-1" and h = 0]
    low_dimensions_wrap [where a = 0 and s = "[[137, 80]]" and w = "-300" and h = 200]
  by auto

end
